theory Spec2Isabelle
  imports Complex_Main
begin

section \<open>Data model (api.py)\<close>

text \<open>
  Python dictionaries that the code iterates over, or tests for emptiness, are association
  lists: iteration order is the list order, \<open>d.get(k, default)\<close> is \<open>dict_get\<close> and
  \<open>k in d\<close> is \<open>dict_contains\<close>. Python floats are modelled by the reals: every
  comparison and product below is the exact one, without rounding.
\<close>

type_synonym 'v dict = "(string \<times> 'v) list"

definition dict_get :: "'v dict \<Rightarrow> string \<Rightarrow> 'v \<Rightarrow> 'v" where
  "dict_get d k dflt = (case map_of d k of None \<Rightarrow> dflt | Some v \<Rightarrow> v)"

definition dict_contains :: "'v dict \<Rightarrow> string \<Rightarrow> bool" where
  "dict_contains d k = (case map_of d k of None \<Rightarrow> False | Some v \<Rightarrow> True)"

record Person =
  person_index :: int
  attributes :: "bool dict"

record Constraint =
  attribute :: string
  min_count :: int

record AttributeStatistics =
  relative_frequencies :: "real dict"
  correlations :: "real dict dict"

record GameState =
  game_id :: string
  status :: string
  admitted_count :: int
  rejected_count :: int
  next_person :: "Person option"
  constraints :: "Constraint list"
  attribute_statistics :: AttributeStatistics

section \<open>The strategy (strategies/scenario_1.py)\<close>

text \<open>
  The fields of \<open>Scenario1Strategy\<close>; \<open>self._constraints\<close>, \<open>self._relative_frequencies\<close>,
  \<open>self._correlations\<close> and \<open>self._attribute_statistics\<close> carry the prefix \<open>self_\<close>.
\<close>

record Scenario1Strategy =
  initial_tolerance :: real
  final_tolerance :: real
  strictness_start :: real
  self_constraints :: "Constraint list"
  self_relative_frequencies :: "real dict"
  self_correlations :: "real dict dict"
  self_attribute_statistics :: "AttributeStatistics option"

text \<open>\<open>Scenario1Strategy.__init__\<close>: stores its three arguments; it has no check and no raise.\<close>

definition Scenario1Strategy_init :: "real \<Rightarrow> real \<Rightarrow> real \<Rightarrow> Scenario1Strategy" where
  "Scenario1Strategy_init initial_tol final_tol strictness =
     \<lparr> initial_tolerance = initial_tol,
       final_tolerance = final_tol,
       strictness_start = strictness,
       self_constraints = [],
       self_relative_frequencies = [],
       self_correlations = [],
       self_attribute_statistics = None \<rparr>"

text \<open>The defaults of the constructor's signature.\<close>

definition Scenario1Strategy_default :: Scenario1Strategy where
  "Scenario1Strategy_default = Scenario1Strategy_init (20 / 100) (2 / 100) (1 / 10)"

text \<open>
  \<open>_calculate_current_tolerance\<close>. The division by \<open>1.0 - strictness_start\<close> is only reached
  when \<open>strictness_start < progress < 0.95\<close>, so the divisor is positive there.
\<close>

definition calculate_current_tolerance :: "Scenario1Strategy \<Rightarrow> int \<Rightarrow> real" where
  "calculate_current_tolerance self admitted =
     (let progress = real_of_int admitted / 1000 in
      if progress \<ge> 95 / 100 then 0
      else if progress \<le> strictness_start self then initial_tolerance self
      else
        let strictness_progress = (progress - strictness_start self) / (1 - strictness_start self);
            strictness_progress = min 1 (max 0 strictness_progress)
        in initial_tolerance self
             - (initial_tolerance self - final_tolerance self) * strictness_progress)"

text \<open>\<open>max(...)\<close> over a non-empty generator: the first element, then the running maximum.\<close>

definition max_of :: "real \<Rightarrow> real list \<Rightarrow> real" where
  "max_of x xs = fold max xs x"

text \<open>\<open>_calculate_no_attributes_target_basic\<close>.\<close>

definition calculate_no_attributes_target_basic :: "Scenario1Strategy \<Rightarrow> real" where
  "calculate_no_attributes_target_basic self =
     (case self_constraints self of
        [] \<Rightarrow> 4 / 10
      | c # cs \<Rightarrow>
          let max_constraint_percentage =
                max_of (real_of_int (min_count c) / 1000)
                       (map (\<lambda>c. real_of_int (min_count c) / 1000) cs);
              total_constraint_percentage =
                sum_list (map (\<lambda>c. real_of_int (min_count c) / 1000) (c # cs));
              estimated_constraint_coverage =
                max max_constraint_percentage (total_constraint_percentage * (6 / 10));
              no_attr_target = 1 - estimated_constraint_coverage
          in max (1 / 10) (min (7 / 10) no_attr_target))"

text \<open>
  \<open>_calculate_no_attributes_target_with_statistics\<close>. The three branches on
  \<open>len(constraint_attrs)\<close> are the three list patterns; the empty list never reaches them.
\<close>

definition calculate_no_attributes_target_with_statistics :: "Scenario1Strategy \<Rightarrow> real" where
  "calculate_no_attributes_target_with_statistics self =
     (if self_constraints self = [] \<or> self_relative_frequencies self = []
      then calculate_no_attributes_target_basic self
      else
        let constraint_attrs = map attribute (self_constraints self) in
        case constraint_attrs of
          [attr] \<Rightarrow>
            let freq = dict_get (self_relative_frequencies self) attr (1 / 2)
            in 1 - freq
        | [attr1, attr2] \<Rightarrow>
            let freq1 = dict_get (self_relative_frequencies self) attr1 (1 / 2);
                freq2 = dict_get (self_relative_frequencies self) attr2 (1 / 2);
                correlation = dict_get (dict_get (self_correlations self) attr1 []) attr2 0;
                joint_prob = freq1 * freq2 * (1 + max 0 correlation);
                joint_prob = min joint_prob (min freq1 freq2);
                prob_either = freq1 + freq2 - joint_prob;
                prob_neither = 1 - prob_either
            in max (5 / 100) (min (8 / 10) prob_neither)
        | _ \<Rightarrow>
            let prob_none =
                  fold (\<lambda>c p. p * (1 - dict_get (self_relative_frequencies self) (attribute c) (1 / 2)))
                       (self_constraints self) 1
            in max (5 / 100) (min (8 / 10) prob_none))"

subsection \<open>Console output and the random source\<close>

text \<open>
  What the strategy prints is a list of events, one constructor for each \<open>print\<close> of
  scenario_1.py, carrying the values that the message formats.
\<close>

datatype log_event =
    NoAttrTarget real
  | NoAttrOverRepresented real real
  | ConstraintsStruggling
  | AcceptingNoAttr real real real
  | RejectingNoAttr real real real
  | ProgressTolerance real real
  | Frequencies "real dict"
  | RejectingOverRepresented string real real real
  | RejectingNeedMoreExpected string int int real int
  | RejectingNeedMore string int int
  | CorrelatedAttributes string real
  | LoadedStatisticalData "real dict" "string list"
  | NoAttrTargets real real

text \<open>
  The process-wide generator of the module \<open>random\<close> is the sequence of the draws still to
  come; \<open>random.random()\<close> returns the first and leaves the rest.
\<close>

type_synonym rng = "nat \<Rightarrow> real"

definition random_random :: "rng \<Rightarrow> real \<times> rng" where
  "random_random g = (g 0, \<lambda>n. g (Suc n))"

subsection \<open>Running statistics of the runner (game_runner.py, \<open>current_stats\<close>)\<close>

record CurrentStats =
  attribute_counts :: "string \<rightharpoonup> int"
  admitted_people :: "bool dict list"
  rejected_people :: "bool dict list"
  steps_taken :: nat

text \<open>\<open>all(not d.get(attr, False) for attr in d)\<close>, used on a candidate and on each admitted one.\<close>

definition no_attributes :: "bool dict \<Rightarrow> bool" where
  "no_attributes d = list_all (\<lambda>attr. \<not> dict_get d attr False) (map fst d)"

subsection \<open>The no-attribute sub-policy\<close>

text \<open>The chain of \<open>if progress <= ...\<close> that sets \<open>base_rate\<close>.\<close>

definition base_rate :: "real \<Rightarrow> real" where
  "base_rate progress =
     (if progress \<le> 5 / 100 then 2 / 10
      else if progress \<le> 15 / 100 then 15 / 100
      else if progress \<le> 3 / 10 then 1 / 10
      else if progress \<le> 5 / 10 then 5 / 100
      else if progress \<le> 7 / 10 then 2 / 100
      else if progress \<le> 9 / 10 then 1 / 100
      else 5 / 1000)"

text \<open>The chain that adjusts the rate to the distance from the target.\<close>

definition adjusted_rate :: "real \<Rightarrow> real \<Rightarrow> real \<Rightarrow> real" where
  "adjusted_rate current_no_attr_percentage target_percentage rate =
     (if current_no_attr_percentage < target_percentage - 1 / 10 then min (3 / 10) (rate * (15 / 10))
      else if current_no_attr_percentage < target_percentage - 3 / 100 then min (2 / 10) (rate * (12 / 10))
      else if current_no_attr_percentage < target_percentage then rate
      else rate * (1 / 10))"

text \<open>
  The loop that sets \<open>any_constraint_struggling\<close> and breaks at the first constraint behind
  its target; it runs only when there are constraints and admitted people.
\<close>

definition any_constraint_struggling :: "Scenario1Strategy \<Rightarrow> CurrentStats \<Rightarrow> bool" where
  "any_constraint_struggling self current_stats =
     (self_constraints self \<noteq> [] \<and> admitted_people current_stats \<noteq> [] \<and>
      list_ex (\<lambda>constraint.
          let attr = attribute constraint;
              current_count = (case attribute_counts current_stats attr of None \<Rightarrow> 0 | Some n \<Rightarrow> n);
              required_count = min_count constraint;
              current_attr_percentage =
                real_of_int current_count / real (length (admitted_people current_stats));
              target_attr_percentage = real_of_int required_count / 1000
          in current_attr_percentage < target_attr_percentage - 5 / 100)
        (self_constraints self))"

text \<open>
  \<open>_decide_no_attributes_person\<close>: the decision, the generator it leaves and what it prints.
  The generator is read only on the path that reaches \<open>random.random()\<close>.
\<close>

definition decide_no_attributes_person ::
  "Scenario1Strategy \<Rightarrow> int \<Rightarrow> CurrentStats \<Rightarrow> bool \<Rightarrow> rng \<Rightarrow> bool \<times> rng \<times> log_event list" where
  "decide_no_attributes_person self admitted current_stats show_progress g =
     (let progress = real_of_int admitted / 1000;
          people = admitted_people current_stats;
          current_no_attr_count = length (filter no_attributes people);
          current_no_attr_percentage =
            (if people \<noteq> [] then real current_no_attr_count / real (length people) else 0);
          target_percentage = calculate_no_attributes_target_with_statistics self;
          log_target =
            (if show_progress \<and> admitted mod 50 = 0 then [NoAttrTarget target_percentage] else [])
      in if current_no_attr_percentage > target_percentage + 2 / 100
         then (False, g,
               log_target @
               (if show_progress
                then [NoAttrOverRepresented current_no_attr_percentage target_percentage] else []))
         else
           let acceptance_rate =
                 adjusted_rate current_no_attr_percentage target_percentage (base_rate progress);
               struggling = any_constraint_struggling self current_stats;
               acceptance_rate = (if struggling then acceptance_rate * (5 / 10) else acceptance_rate);
               log_struggling = (if struggling \<and> show_progress then [ConstraintsStruggling] else []);
               (draw, g') = random_random g;
               decision = (draw < acceptance_rate);
               log_decision =
                 (if show_progress
                  then (if decision
                        then [AcceptingNoAttr current_no_attr_percentage target_percentage acceptance_rate]
                        else [RejectingNoAttr current_no_attr_percentage target_percentage acceptance_rate])
                  else [])
           in (decision, g', log_target @ log_struggling @ log_decision))"

subsection \<open>The per-constraint path\<close>

text \<open>\<open>_calculate_expected_attribute_yield\<close>.\<close>

definition calculate_expected_attribute_yield :: "Scenario1Strategy \<Rightarrow> string \<Rightarrow> int \<Rightarrow> real" where
  "calculate_expected_attribute_yield self attr remaining_people =
     (if self_relative_frequencies self = [] then real_of_int remaining_people * (5 / 10)
      else
        let frequency = dict_get (self_relative_frequencies self) attr (5 / 10)
        in real_of_int remaining_people * frequency)"

text \<open>
  The inner loop over \<open>person_attrs\<close> that sums \<open>correlation_bonus\<close>. The subscript
  \<open>self._correlations[attr][other_attr]\<close> is reached only behind the membership test, so it
  finds its key.
\<close>

definition correlation_bonus :: "Scenario1Strategy \<Rightarrow> string \<Rightarrow> string list \<Rightarrow> real" where
  "correlation_bonus self attr person_attrs =
     fold (\<lambda>other_attr bonus.
             if other_attr \<noteq> attr \<and> dict_contains (dict_get (self_correlations self) attr []) other_attr
             then
               let corr = dict_get (dict_get (self_correlations self) attr []) other_attr 0
               in if corr > 1 / 10 then bonus + corr else bonus
             else bonus)
          person_attrs 0"

text \<open>What the block under \<open># Bonus\<close> prints for one constraint.\<close>

definition correlation_log :: "Scenario1Strategy \<Rightarrow> Person \<Rightarrow> string \<Rightarrow> bool \<Rightarrow> bool \<Rightarrow> log_event list" where
  "correlation_log self person attr person_has_attr show_progress =
     (if person_has_attr \<and> self_correlations self \<noteq> []
      then
        let person_attrs = map fst (filter snd (attributes person)) in
        if length person_attrs > 1
        then
          let bonus = correlation_bonus self attr person_attrs
          in if bonus > 2 / 10 \<and> show_progress then [CorrelatedAttributes attr bonus] else []
        else []
      else [])"

text \<open>
  The two checks of one iteration of the loop \<open>for constraint in constraints\<close> of
  \<open>decide\<close>: \<open>Some\<close> of what is printed when the iteration returns \<open>False\<close>, \<open>None\<close> when
  it falls through to the correlation block and the next constraint.
\<close>

definition constraint_rejects ::
  "Scenario1Strategy \<Rightarrow> Person \<Rightarrow> CurrentStats \<Rightarrow> bool \<Rightarrow> int \<Rightarrow> int \<Rightarrow> real \<Rightarrow> Constraint
     \<Rightarrow> log_event list option" where
  "constraint_rejects self person current_stats show_progress total_admitted remaining_spots
       current_tolerance constraint =
     (let attr = attribute constraint;
          required_count = min_count constraint;
          target_percentage = real_of_int required_count / 1000;
          current_count = (case attribute_counts current_stats attr of None \<Rightarrow> 0 | Some n \<Rightarrow> n);
          current_percentage =
            (if total_admitted > 0 then real_of_int current_count / real_of_int total_admitted else 0);
          person_has_attr = dict_get (attributes person) attr False
      in if person_has_attr \<and> current_percentage > target_percentage + current_tolerance
         then Some (if show_progress
                    then [RejectingOverRepresented attr current_percentage target_percentage
                            current_tolerance]
                    else [])
         else if \<not> person_has_attr \<and> current_percentage < target_percentage - 8 / 100
         then
           let still_needed = required_count - current_count in
           if self_relative_frequencies self \<noteq> [] \<and> dict_contains (self_relative_frequencies self) attr
           then
             let expected_yield = calculate_expected_attribute_yield self attr remaining_spots in
             if expected_yield < real_of_int still_needed * (12 / 10)
             then Some (if show_progress
                        then [RejectingNeedMoreExpected attr current_count required_count
                                expected_yield remaining_spots]
                        else [])
             else None
           else
             if real_of_int still_needed > real_of_int remaining_spots * (7 / 10)
             then Some (if show_progress
                        then [RejectingNeedMore attr current_count required_count] else [])
             else None
         else None)"

text \<open>
  The loop itself, with the final \<open>return True\<close> at the end of the list. The values computed
  before the loop are its parameters.
\<close>

fun decide_constraints ::
  "Scenario1Strategy \<Rightarrow> Person \<Rightarrow> CurrentStats \<Rightarrow> bool \<Rightarrow> int \<Rightarrow> int \<Rightarrow> real \<Rightarrow> Constraint list
     \<Rightarrow> bool \<times> log_event list" where
  "decide_constraints self person current_stats show_progress total_admitted remaining_spots
       current_tolerance [] = (True, [])"
| "decide_constraints self person current_stats show_progress total_admitted remaining_spots
       current_tolerance (constraint # rest) =
     (case constraint_rejects self person current_stats show_progress total_admitted
             remaining_spots current_tolerance constraint of
        Some lg \<Rightarrow> (False, lg)
      | None \<Rightarrow>
          let (decision, lg) =
                decide_constraints self person current_stats show_progress total_admitted
                  remaining_spots current_tolerance rest
          in (decision,
              correlation_log self person (attribute constraint)
                (dict_get (attributes person) (attribute constraint) False) show_progress @ lg))"

definition milestone_points :: "real list" where
  "milestone_points = [1 / 10, 2 / 10, 3 / 10, 5 / 10, 7 / 10, 8 / 10, 9 / 10]"

text \<open>
  \<open>decide\<close>: the decision, the strategy (whose \<open>_constraints\<close> the call may latch from the
  game state), the generator and the output.
\<close>

definition decide ::
  "Scenario1Strategy \<Rightarrow> Person \<Rightarrow> GameState \<Rightarrow> CurrentStats \<Rightarrow> bool \<Rightarrow> rng
     \<Rightarrow> bool \<times> Scenario1Strategy \<times> rng \<times> log_event list" where
  "decide self person game_state current_stats show_progress g =
     (if admitted_count game_state \<ge> 1000 then (False, self, g, [])
      else if no_attributes (attributes person)
      then
        let (decision, g', lg) =
              decide_no_attributes_person self (admitted_count game_state) current_stats
                show_progress g
        in (decision, self, g', lg)
      else if length (admitted_people current_stats) = 0 then (True, self, g, [])
      else if self_constraints self = [] \<and> constraints game_state = [] then (True, self, g, [])
      else
        let self' = (if self_constraints self = []
                     then self\<lparr>self_constraints := constraints game_state\<rparr> else self);
            total_admitted = int (length (admitted_people current_stats));
            remaining_spots = 1000 - total_admitted;
            current_tolerance = calculate_current_tolerance self' total_admitted;
            progress = real_of_int total_admitted / 1000;
            log_progress =
              (if list_ex (\<lambda>mp. \<bar>progress - mp\<bar> < 5 / 1000) milestone_points \<and> show_progress
               then ProgressTolerance progress current_tolerance #
                    (if self_relative_frequencies self' \<noteq> []
                     then [Frequencies (self_relative_frequencies self')] else [])
               else []);
            (decision, lg) =
              decide_constraints self' person current_stats show_progress total_admitted
                remaining_spots current_tolerance (self_constraints self')
        in (decision, self', g, log_progress @ lg))"

text \<open>
  \<open>on_game_start\<close>. A \<open>GameState\<close> always carries an \<open>AttributeStatistics\<close> object, which
  is truthy, so the branch that loads the statistics is the one taken.
\<close>

definition on_game_start :: "Scenario1Strategy \<Rightarrow> GameState \<Rightarrow> Scenario1Strategy \<times> log_event list" where
  "on_game_start self game_state =
     (let self1 = self\<lparr>self_constraints := constraints game_state\<rparr>;
          stats = attribute_statistics game_state;
          self2 = self1\<lparr>self_relative_frequencies := relative_frequencies stats,
                        self_correlations := correlations stats,
                        self_attribute_statistics := Some stats\<rparr>
      in (self2,
          LoadedStatisticalData (self_relative_frequencies self2) (map fst (self_correlations self2)) #
          (if self_constraints self2 \<noteq> []
           then [NoAttrTargets (calculate_no_attributes_target_with_statistics self2)
                               (calculate_no_attributes_target_basic self2)]
           else [])))"

section \<open>The remote service (api.py)\<close>

text \<open>
  The game service is outside the repository: it is a parameter, a state machine that
  answers the two requests of \<open>BerghainAPI\<close> with the decoded JSON. Transport failures
  raised inside the HTTP library are not modelled; the \<open>raise\<close> of \<open>new_game\<close> is. The
  client object is taken as constructed, that is with a player id: its constructor is the
  only other place of api.py that raises.
\<close>

datatype error = ValueError | AttributeError

record NewGameData =
  gameId :: string
  data_constraints :: "(string \<times> int) list"
  relativeFrequencies :: "real dict"
  data_correlations :: "real dict dict"

record DecideData =
  data_status :: string
  admittedCount :: "int option"
  rejectedCount :: "int option"
  nextPerson :: "(int \<times> bool dict) option"

record 'srv BerghainAPI =
  get_new_game :: "'srv \<Rightarrow> int \<Rightarrow> NewGameData \<times> 'srv"
  get_decide_and_next :: "'srv \<Rightarrow> string \<Rightarrow> int \<Rightarrow> bool option \<Rightarrow> DecideData \<times> 'srv"

text \<open>\<open>BerghainAPI.new_game\<close>.\<close>

definition new_game :: "'srv BerghainAPI \<Rightarrow> 'srv \<Rightarrow> int \<Rightarrow> error + (GameState \<times> 'srv)" where
  "new_game api srv scenario =
     (if scenario \<notin> set [1, 2, 3] then Inl ValueError
      else
        let (data, srv') = get_new_game api srv scenario
        in Inr (\<lparr> game_id = gameId data,
                  status = ''running'',
                  admitted_count = 0,
                  rejected_count = 0,
                  next_person = None,
                  constraints =
                    map (\<lambda>(a, m). \<lparr> attribute = a, min_count = m \<rparr>) (data_constraints data),
                  attribute_statistics =
                    \<lparr> relative_frequencies = relativeFrequencies data,
                      correlations = data_correlations data \<rparr> \<rparr>,
                srv'))"

text \<open>\<open>BerghainAPI.decide_and_next\<close>.\<close>

definition decide_and_next ::
  "'srv BerghainAPI \<Rightarrow> 'srv \<Rightarrow> string \<Rightarrow> int \<Rightarrow> bool option \<Rightarrow> GameState \<times> 'srv" where
  "decide_and_next api srv gid idx accept =
     (let (data, srv') = get_decide_and_next api srv gid idx accept
      in (\<lparr> game_id = gid,
            status = data_status data,
            admitted_count = (case admittedCount data of None \<Rightarrow> 0 | Some n \<Rightarrow> n),
            rejected_count = (case rejectedCount data of None \<Rightarrow> 0 | Some n \<Rightarrow> n),
            next_person =
              (case nextPerson data of
                 None \<Rightarrow> None
               | Some (i, attrs) \<Rightarrow> Some \<lparr> person_index = i, attributes = attrs \<rparr>),
            constraints = [],
            attribute_statistics = \<lparr> relative_frequencies = [], correlations = [] \<rparr> \<rparr>,
          srv'))"

section \<open>The session controller (game_runner.py)\<close>

text \<open>\<open>PersonRecord\<close>, without its wall-clock timestamp, which nothing reads.\<close>

record PersonRecord =
  record_person_index :: int
  record_attributes :: "bool dict"
  decision :: bool
  admitted_count_before :: int
  rejected_count_before :: int
  admitted_count_after :: int
  rejected_count_after :: int

record GameRunner =
  strategy :: Scenario1Strategy
  game_state :: "GameState option"
  initial_game_info :: "GameState option"
  people_history :: "PersonRecord list"
  current_stats :: CurrentStats
  game_started :: bool
  game_completed :: bool

text \<open>
  What lies outside the runner object: the state of the remote service, the random
  generator, and the console with what the strategy has printed.
\<close>

record 'srv world =
  server :: 'srv
  rng_state :: rng
  console :: "log_event list"

text \<open>\<open>GameRunner.reset\<close> and \<open>GameRunner.__init__\<close>.\<close>

definition reset :: "GameRunner \<Rightarrow> GameRunner" where
  "reset r =
     r\<lparr> game_state := None,
        initial_game_info := None,
        people_history := [],
        current_stats := \<lparr> attribute_counts = Map.empty, admitted_people = [],
                           rejected_people = [], steps_taken = 0 \<rparr>,
        game_started := False,
        game_completed := False \<rparr>"

definition GameRunner_init :: "Scenario1Strategy \<Rightarrow> GameRunner" where
  "GameRunner_init strat =
     \<lparr> strategy = strat,
       game_state = None,
       initial_game_info = None,
       people_history = [],
       current_stats = \<lparr> attribute_counts = Map.empty, admitted_people = [],
                         rejected_people = [], steps_taken = 0 \<rparr>,
       game_started = False,
       game_completed = False \<rparr>"

text \<open>
  \<open>GameRunner.start_game\<close>. When \<open>new_game\<close> raises, the exception leaves the method and
  the result is the error alone.
\<close>

definition start_game ::
  "'srv BerghainAPI \<Rightarrow> int \<Rightarrow> GameRunner \<Rightarrow> 'srv world \<Rightarrow> error + (GameRunner \<times> 'srv world)" where
  "start_game api scenario r0 w =
     (let r = reset r0 in
      case new_game api (server w) scenario of
        Inl e \<Rightarrow> Inl e
      | Inr (info, srv1) \<Rightarrow>
          let stats = current_stats r;
              counts = fold (\<lambda>constraint m. m(attribute constraint \<mapsto> 0)) (constraints info)
                         (attribute_counts stats);
              (strat, lg) = on_game_start (strategy r) info;
              (gs, srv2) = decide_and_next api srv1 (game_id info) 0 None
          in Inr (r\<lparr> strategy := strat,
                     game_state := Some gs,
                     initial_game_info := Some info,
                     current_stats := stats\<lparr>attribute_counts := counts\<rparr>,
                     game_started := True \<rparr>,
                  w\<lparr> server := srv2, console := console w @ lg \<rparr>))"

text \<open>The block \<open># Update statistics\<close> of \<open>step\<close>.\<close>

definition update_statistics :: "Person \<Rightarrow> bool \<Rightarrow> CurrentStats \<Rightarrow> CurrentStats" where
  "update_statistics person accepted stats =
     (if accepted
      then stats\<lparr> admitted_people := admitted_people stats @ [attributes person],
                  attribute_counts :=
                    fold (\<lambda>(attr, v) m.
                            case m attr of
                              Some n \<Rightarrow> (if v then m(attr \<mapsto> n + 1) else m)
                            | None \<Rightarrow> m)
                         (attributes person) (attribute_counts stats) \<rparr>
      else stats\<lparr> rejected_people := rejected_people stats @ [attributes person] \<rparr>)"

text \<open>
  One decision cycle: the body of the loop of \<open>step\<close> from \<open># Make decision\<close> to
  \<open>steps_taken += 1\<close>, for the candidate \<open>person\<close> of the game state \<open>gs\<close>. It returns
  the record of the candidate, the runner, the world and the game state that the service
  answered with.
\<close>

definition step_cycle ::
  "'srv BerghainAPI \<Rightarrow> bool \<Rightarrow> Person \<Rightarrow> GameState \<Rightarrow> GameRunner \<Rightarrow> 'srv world
     \<Rightarrow> PersonRecord \<times> GameRunner \<times> 'srv world \<times> GameState" where
  "step_cycle api show_progress person gs r w =
     (let (accepted, strat, g, lg) =
            decide (strategy r) person gs (current_stats r) show_progress (rng_state w);
          admitted_before = admitted_count gs;
          rejected_before = rejected_count gs;
          record = \<lparr> record_person_index = person_index person,
                     record_attributes = attributes person,
                     decision = accepted,
                     admitted_count_before = admitted_before,
                     rejected_count_before = rejected_before,
                     admitted_count_after = admitted_before + (if accepted then 1 else 0),
                     rejected_count_after = rejected_before + (if accepted then 0 else 1) \<rparr>;
          stats = update_statistics person accepted (current_stats r);
          (gs', srv') =
            decide_and_next api (server w) (game_id gs) (person_index person) (Some accepted);
          r' = r\<lparr> strategy := strat,
                  game_state := Some gs',
                  people_history := people_history r @ [record],
                  current_stats := stats\<lparr>steps_taken := steps_taken stats + 1\<rparr> \<rparr>;
          w' = \<lparr> server = srv', rng_state = g, console = console w @ lg \<rparr>
      in (record, r', w', gs'))"

text \<open>
  The loop of \<open>step\<close>: the first argument counts the iterations that \<open>range(num_steps)\<close>
  still has, the list holds \<open>step_records\<close>. Reading a field of a missing game state is
  the \<open>AttributeError\<close> that Python raises on \<open>None\<close>.
\<close>

fun step_loop ::
  "'srv BerghainAPI \<Rightarrow> bool \<Rightarrow> nat \<Rightarrow> PersonRecord list \<Rightarrow> GameRunner \<Rightarrow> 'srv world
     \<Rightarrow> error + (PersonRecord list \<times> GameRunner \<times> 'srv world)" where
  "step_loop api show_progress 0 step_records r w = Inr (step_records, r, w)"
| "step_loop api show_progress (Suc n) step_records r w =
     (case game_state r of
        None \<Rightarrow> Inl AttributeError
      | Some gs \<Rightarrow>
          (case next_person gs of
             None \<Rightarrow> Inr (step_records, r\<lparr>game_completed := True\<rparr>, w)
           | Some person \<Rightarrow>
               if status gs \<noteq> ''running''
               then Inr (step_records, r\<lparr>game_completed := True\<rparr>, w)
               else
                 let (record, r', w', gs') = step_cycle api show_progress person gs r w
                 in if status gs' \<noteq> ''running''
                    then Inr (step_records @ [record], r'\<lparr>game_completed := True\<rparr>, w')
                    else step_loop api show_progress n (step_records @ [record]) r' w'))"

text \<open>\<open>GameRunner.step\<close>; \<open>range\<close> of a negative number is empty.\<close>

definition step ::
  "'srv BerghainAPI \<Rightarrow> int \<Rightarrow> bool \<Rightarrow> GameRunner \<Rightarrow> 'srv world
     \<Rightarrow> error + (PersonRecord list \<times> GameRunner \<times> 'srv world)" where
  "step api num_steps show_progress r w =
     (if \<not> game_started r \<or> game_completed r then Inr ([], r, w)
      else step_loop api show_progress (nat num_steps) [] r w)"

section \<open>Invariants and observations\<close>

text \<open>No tracked count exceeds the number of admitted candidates.\<close>

definition counts_bounded :: "CurrentStats \<Rightarrow> bool" where
  "counts_bounded stats =
     (\<forall>attr n. attribute_counts stats attr = Some n \<longrightarrow> n \<le> int (length (admitted_people stats)))"

text \<open>
  The attributes of a candidate are a dictionary: no key occurs twice. The service
  delivers only such candidates.
\<close>

definition person_dict_ok :: "GameState \<Rightarrow> bool" where
  "person_dict_ok gs =
     (case next_person gs of None \<Rightarrow> True | Some p \<Rightarrow> distinct (map fst (attributes p)))"

definition service_dicts_ok :: "'srv BerghainAPI \<Rightarrow> bool" where
  "service_dicts_ok api =
     (\<forall>srv gid idx accept.
        case nextPerson (fst (get_decide_and_next api srv gid idx accept)) of
          None \<Rightarrow> True
        | Some (i, attrs) \<Rightarrow> distinct (map fst attrs))"

definition runner_inv :: "GameRunner \<Rightarrow> bool" where
  "runner_inv r =
     (counts_bounded (current_stats r) \<and>
      (case game_state r of None \<Rightarrow> True | Some gs \<Rightarrow> person_dict_ok gs))"

text \<open>
  What a run of \<open>step\<close> lets one observe: the error, or the records with their decisions,
  the runner, the state of the service and the console. The generator is left out.
\<close>

definition observed ::
  "error + (PersonRecord list \<times> GameRunner \<times> 'srv world)
     \<Rightarrow> error + (PersonRecord list \<times> GameRunner \<times> 'srv \<times> log_event list)" where
  "observed res =
     (case res of
        Inl e \<Rightarrow> Inl e
      | Inr (recs, r, w) \<Rightarrow> Inr (recs, r, server w, console w))"

section \<open>Concrete sessions\<close>

text \<open>Small strategies, candidates and states on which the results below are evaluated.\<close>

definition draws_half :: rng where
  "draws_half = (\<lambda>n. 1 / 2)"

definition strategy_one_quota :: Scenario1Strategy where
  "strategy_one_quota =
     Scenario1Strategy_default
       \<lparr> self_constraints := [\<lparr> attribute = ''X'', min_count = 500 \<rparr>],
         self_relative_frequencies := [(''X'', 1 / 2)] \<rparr>"

definition strategy_two_quotas :: Scenario1Strategy where
  "strategy_two_quotas =
     Scenario1Strategy_default
       \<lparr> self_constraints := [\<lparr> attribute = ''A'', min_count = 300 \<rparr>,
                              \<lparr> attribute = ''B'', min_count = 300 \<rparr>],
         self_relative_frequencies := [(''A'', 1 / 2), (''B'', 1 / 2)],
         self_correlations := [(''A'', [(''B'', 0)]), (''B'', [(''A'', 0)])] \<rparr>"

definition strategy_frequency_one :: Scenario1Strategy where
  "strategy_frequency_one =
     Scenario1Strategy_default
       \<lparr> self_constraints := [\<lparr> attribute = ''X'', min_count = 500 \<rparr>],
         self_relative_frequencies := [(''X'', 1)] \<rparr>"

definition strategy_frequency_zero :: Scenario1Strategy where
  "strategy_frequency_zero =
     Scenario1Strategy_default
       \<lparr> self_constraints := [\<lparr> attribute = ''X'', min_count = 500 \<rparr>],
         self_relative_frequencies := [(''X'', 0)] \<rparr>"

definition strategy_rising :: Scenario1Strategy where
  "strategy_rising = Scenario1Strategy_init (2 / 100) (20 / 100) (1 / 10)"

definition state_running :: "int \<Rightarrow> GameState" where
  "state_running n =
     \<lparr> game_id = ''g'', status = ''running'', admitted_count = n, rejected_count = 0,
       next_person = None, constraints = [],
       attribute_statistics = \<lparr> relative_frequencies = [], correlations = [] \<rparr> \<rparr>"

definition stats_start :: CurrentStats where
  "stats_start =
     \<lparr> attribute_counts = [''X'' \<mapsto> 0], admitted_people = [], rejected_people = [],
       steps_taken = 0 \<rparr>"

definition stats_one_admitted :: CurrentStats where
  "stats_one_admitted =
     \<lparr> attribute_counts = [''X'' \<mapsto> 1], admitted_people = [[(''X'', True), (''Y'', False)]],
       rejected_people = [], steps_taken = 1 \<rparr>"

definition person_empty :: Person where
  "person_empty = \<lparr> person_index = 0, attributes = [(''X'', False), (''Y'', False)] \<rparr>"

definition person_only_Y :: Person where
  "person_only_Y = \<lparr> person_index = 1, attributes = [(''X'', False), (''Y'', True)] \<rparr>"



definition stats_two_admitted :: CurrentStats where
  "stats_two_admitted =
     \<lparr> attribute_counts = [''X'' \<mapsto> 1],
       admitted_people = [[(''X'', True), (''Y'', False)], [(''X'', False), (''Y'', True)]],
       rejected_people = [], steps_taken = 2 \<rparr>"

definition person_X_and_Y :: Person where
  "person_X_and_Y = \<lparr> person_index = 2, attributes = [(''X'', True), (''Y'', True)] \<rparr>"

definition correlations_X_Y :: "real dict dict" where
  "correlations_X_Y = [(''X'', [(''Y'', 1 / 2)]), (''Y'', [(''X'', 1 / 2)])]"

text \<open>
  A small service: one quota on X, capacity 3, rejection budget 3; candidate number \<open>i\<close>
  has X when \<open>i mod 3 = 0\<close>, Y when \<open>i mod 3 = 1\<close> and no attribute otherwise. Its state
  is the triple of the admitted count, the rejected count and the index of the next
  candidate.
\<close>

definition toy_service :: "(int \<times> int \<times> int) BerghainAPI" where
  "toy_service =
     \<lparr> get_new_game = (\<lambda>srv scenario.
         (\<lparr> gameId = ''g'', data_constraints = [(''X'', 1)],
            relativeFrequencies = [(''X'', 1 / 2)], data_correlations = [] \<rparr>,
          (0, 0, 0))),
       get_decide_and_next = (\<lambda>srv gid idx accept.
         let a = (if accept = Some True then fst srv + 1 else fst srv);
             r = (if accept = Some False then fst (snd srv) + 1 else fst (snd srv));
             i = snd (snd srv);
             st = (if a \<ge> 3 then ''completed'' else if r \<ge> 3 then ''failed'' else ''running'')
         in (\<lparr> data_status = st, admittedCount = Some a, rejectedCount = Some r,
               nextPerson = (if st = ''running''
                             then Some (i, [(''X'', i mod 3 = 0), (''Y'', i mod 3 = 1)])
                             else None) \<rparr>,
             (a, r, i + 1))) \<rparr>"

definition toy_world :: "(int \<times> int \<times> int) world" where
  "toy_world = \<lparr> server = (0, 0, 0), rng_state = draws_half, console = [] \<rparr>"

text \<open>Draws that agree with \<open>draws_half\<close> on the first three positions only.\<close>

definition draws_half_then_zero :: rng where
  "draws_half_then_zero = (\<lambda>n. if n < 3 then 1 / 2 else 0)"

text \<open>A strategy built with a tolerance outside [0, 1].\<close>

definition strategy_bad_tolerance :: Scenario1Strategy where
  "strategy_bad_tolerance = Scenario1Strategy_init 2 (2 / 100) (1 / 10)"

text \<open>The toy session after \<open>start_game\<close>, and after a call of \<open>step\<close>.\<close>

definition toy_started :: "Scenario1Strategy \<Rightarrow> GameRunner \<times> (int \<times> int \<times> int) world" where
  "toy_started strat = projr (start_game toy_service 1 (GameRunner_init strat) toy_world)"

definition toy_after ::
  "Scenario1Strategy \<Rightarrow> int \<Rightarrow> PersonRecord list \<times> GameRunner \<times> (int \<times> int \<times> int) world" where
  "toy_after strat n =
     projr (step toy_service n True (fst (toy_started strat)) (snd (toy_started strat)))"

section \<open>Auxiliary facts\<close>

subsection \<open>The tolerance schedule by cases\<close>

lemma tolerance_at_end:
  "95 / 100 \<le> real_of_int a / 1000 \<Longrightarrow> calculate_current_tolerance self a = 0"
  by (simp add: calculate_current_tolerance_def)

lemma tolerance_flat:
  "real_of_int a / 1000 < 95 / 100 \<Longrightarrow> real_of_int a / 1000 \<le> strictness_start self \<Longrightarrow>
   calculate_current_tolerance self a = initial_tolerance self"
  by (simp add: calculate_current_tolerance_def Let_def)

lemma tolerance_interpolated:
  "real_of_int a / 1000 < 95 / 100 \<Longrightarrow> \<not> real_of_int a / 1000 \<le> strictness_start self \<Longrightarrow>
   calculate_current_tolerance self a =
     initial_tolerance self - (initial_tolerance self - final_tolerance self)
       * min 1 (max 0 ((real_of_int a / 1000 - strictness_start self) / (1 - strictness_start self)))"
  by (simp add: calculate_current_tolerance_def Let_def)

lemma interpolation_antimono:
  fixes i f s p q :: real
  assumes "f \<le> i" "s < 1" "p \<le> q"
  shows "i - (i - f) * min 1 (max 0 ((q - s) / (1 - s)))
       \<le> i - (i - f) * min 1 (max 0 ((p - s) / (1 - s)))"
proof -
  have "(p - s) / (1 - s) \<le> (q - s) / (1 - s)"
    using assms by (simp add: divide_right_mono)
  then have "min 1 (max 0 ((p - s) / (1 - s))) \<le> min 1 (max 0 ((q - s) / (1 - s)))"
    by (simp add: min_def max_def)
  then have "(i - f) * min 1 (max 0 ((p - s) / (1 - s)))
           \<le> (i - f) * min 1 (max 0 ((q - s) / (1 - s)))"
    using assms by (simp add: mult_left_mono)
  then show ?thesis by simp
qed

lemma interpolation_below_initial:
  fixes i f t :: real
  assumes "f \<le> i"
  shows "i - (i - f) * min 1 (max 0 t) \<le> i"
proof -
  have "0 \<le> (i - f) * min 1 (max 0 t)" using assms by simp
  then show ?thesis by simp
qed

lemma interpolation_nonneg:
  fixes i f t :: real
  assumes "0 \<le> f" "f \<le> i"
  shows "0 \<le> i - (i - f) * min 1 (max 0 t)"
proof -
  have "(i - f) * min 1 (max 0 t) \<le> (i - f) * 1"
    using assms by (intro mult_left_mono) auto
  then show ?thesis using assms by simp
qed

lemma tolerance_nonneg:
  assumes "0 \<le> final_tolerance self" "final_tolerance self \<le> initial_tolerance self"
  shows "0 \<le> calculate_current_tolerance self a"
proof -
  let ?p = "real_of_int a / 1000"
  consider (hi) "95 / 100 \<le> ?p" | (lo) "?p < 95 / 100" "?p \<le> strictness_start self"
    | (mid) "?p < 95 / 100" "\<not> ?p \<le> strictness_start self" by linarith
  then show ?thesis
  proof cases
    case hi
    show ?thesis unfolding tolerance_at_end[OF hi] by simp
  next
    case lo
    show ?thesis unfolding tolerance_flat[OF lo] using assms by simp
  next
    case mid
    show ?thesis unfolding tolerance_interpolated[OF mid] by (rule interpolation_nonneg[OF assms])
  qed
qed

lemma tolerance_antimono:
  assumes "0 \<le> final_tolerance self" "final_tolerance self \<le> initial_tolerance self" "a \<le> b"
  shows "calculate_current_tolerance self b \<le> calculate_current_tolerance self a"
proof -
  let ?p = "real_of_int a / 1000" and ?q = "real_of_int b / 1000"
  have pq: "?p \<le> ?q" using assms(3) by simp
  consider (hi) "95 / 100 \<le> ?q" | (lo) "?q < 95 / 100" "?q \<le> strictness_start self"
    | (mid) "?q < 95 / 100" "\<not> ?q \<le> strictness_start self" by linarith
  then show ?thesis
  proof cases
    case hi
    show ?thesis unfolding tolerance_at_end[OF hi] by (rule tolerance_nonneg[OF assms(1,2)])
  next
    case lo
    from lo pq have pl: "?p < 95 / 100" "?p \<le> strictness_start self" by linarith+
    show ?thesis unfolding tolerance_flat[OF lo] tolerance_flat[OF pl] by simp
  next
    case mid
    from mid pq have plo: "?p < 95 / 100" by linarith
    from mid have s1: "strictness_start self < 1" by linarith
    show ?thesis
    proof (cases "?p \<le> strictness_start self")
      case True
      show ?thesis unfolding tolerance_interpolated[OF mid] tolerance_flat[OF plo True]
        by (rule interpolation_below_initial[OF assms(2)])
    next
      case False
      show ?thesis unfolding tolerance_interpolated[OF mid] tolerance_interpolated[OF plo False]
        by (rule interpolation_antimono[OF assms(2) s1 pq])
    qed
  qed
qed

subsection \<open>The no-attribute target\<close>

lemma clamp_bounds:
  fixes x :: real
  shows "5 / 100 \<le> max (5 / 100) (min (8 / 10) x) \<and> max (5 / 100) (min (8 / 10) x) \<le> 8 / 10"
  by (simp add: max_def min_def)

lemma target_is_clamped:
  assumes "self_relative_frequencies self \<noteq> []" "2 \<le> length (self_constraints self)"
  shows "\<exists>x. calculate_no_attributes_target_with_statistics self = max (5 / 100) (min (8 / 10) x)"
proof (cases "self_constraints self")
  case Nil
  with assms show ?thesis by simp
next
  case outer: (Cons c1 cs1)
  show ?thesis
  proof (cases cs1)
    case Nil
    with outer assms show ?thesis by simp
  next
    case middle: (Cons c2 cs2)
    show ?thesis
    proof (cases cs2)
      case Nil
      then show ?thesis
        unfolding calculate_no_attributes_target_with_statistics_def Let_def
        using assms(1) outer middle
        by (simp only: list.simps list.case if_False simp_thms) blast
    next
      case (Cons c3 cs3)
      then show ?thesis
        unfolding calculate_no_attributes_target_with_statistics_def Let_def
        using assms(1) outer middle
        by (simp only: list.simps list.case if_False simp_thms) blast
    qed
  qed
qed

lemma target_single_quota:
  assumes "self_relative_frequencies self \<noteq> []" "self_constraints self = [c]"
  shows "calculate_no_attributes_target_with_statistics self
           = 1 - dict_get (self_relative_frequencies self) (attribute c) (1 / 2)"
  using assms by (simp add: calculate_no_attributes_target_with_statistics_def Let_def)

subsection \<open>Dictionaries with distinct keys\<close>

lemma dict_get_distinct:
  assumes "distinct (map fst d)"
  shows "dict_get d k False = ((k, True) \<in> set d)"
proof (cases "map_of d k")
  case None
  then have "k \<notin> fst ` set d" by (simp add: map_of_eq_None_iff)
  then have "(k, True) \<notin> set d" by force
  with None show ?thesis by (simp add: dict_get_def)
next
  case (Some v)
  then have "(k, v) \<in> set d" by (rule map_of_SomeD)
  moreover have "(k, True) \<in> set d \<Longrightarrow> map_of d k = Some True"
    using assms by simp
  ultimately show ?thesis using Some by (auto simp add: dict_get_def)
qed

lemma no_attributes_iff:
  assumes "distinct (map fst d)"
  shows "no_attributes d = (\<forall>(k, v) \<in> set d. \<not> v)"
proof -
  have "no_attributes d = (\<forall>k \<in> fst ` set d. (k, True) \<notin> set d)"
    by (simp add: no_attributes_def list_all_iff dict_get_distinct[OF assms])
  also have "\<dots> = (\<forall>(k, v) \<in> set d. \<not> v)" by force
  finally show ?thesis .
qed

subsection \<open>The first branches of \<open>decide\<close>\<close>

lemma base_rate_bounds: "0 < base_rate p \<and> base_rate p \<le> 2 / 10"
  by (simp add: base_rate_def)

lemma adjusted_rate_le:
  assumes "0 \<le> r" "r \<le> 2 / 10"
  shows "adjusted_rate c t r \<le> 3 / 10"
  using assms by (auto simp add: adjusted_rate_def min_def)

lemma not_struggling_empty:
  "admitted_people st = [] \<Longrightarrow> \<not> any_constraint_struggling self st"
  by (simp add: any_constraint_struggling_def)

lemma no_attr_first_rejects:
  assumes "admitted_people st = []" "3 / 10 \<le> g 0"
  shows "fst (decide_no_attributes_person self a st sp g) = False"
proof -
  let ?t = "calculate_no_attributes_target_with_statistics self"
  have r: "adjusted_rate 0 ?t (base_rate (real_of_int a / 1000)) \<le> 3 / 10"
    using base_rate_bounds[of "real_of_int a / 1000"] by (intro adjusted_rate_le) auto
  then have "\<not> g 0 < adjusted_rate 0 ?t (base_rate (real_of_int a / 1000))"
    using assms(2) by linarith
  then show ?thesis
    using assms(1) not_struggling_empty[OF assms(1), of self]
    by (simp add: decide_no_attributes_person_def Let_def random_random_def split: prod.splits)
qed

lemma decide_no_attr:
  assumes "admitted_count gs < 1000" "no_attributes (attributes p)"
  shows "decide self p gs st sp g =
    (fst (decide_no_attributes_person self (admitted_count gs) st sp g), self,
     snd (decide_no_attributes_person self (admitted_count gs) st sp g))"
  using assms by (simp add: decide_def split: prod.splits)

lemma decide_bootstrap:
  assumes "admitted_count gs < 1000" "\<not> no_attributes (attributes p)" "admitted_people st = []"
  shows "decide self p gs st sp g = (True, self, g, [])"
  using assms by (simp add: decide_def)

lemma decide_rng_per_quota:
  assumes "\<not> no_attributes (attributes p)"
  shows "fst (snd (snd (decide self p gs st sp g))) = g"
  using assms by (simp add: decide_def Let_def split: prod.splits)

subsection \<open>The per-quota path of \<open>decide\<close>\<close>

lemma decide_fst_per_quota:
  assumes "\<not> no_attributes (attributes p)"
  shows "fst (decide self p gs st sp g) =
     (if admitted_count gs \<ge> 1000 then False
      else if admitted_people st = [] then True
      else if self_constraints self = [] \<and> constraints gs = [] then True
      else fst (decide_constraints
                  (if self_constraints self = []
                   then self\<lparr>self_constraints := constraints gs\<rparr> else self)
                  p st sp (int (length (admitted_people st)))
                  (1000 - int (length (admitted_people st)))
                  (calculate_current_tolerance
                     (if self_constraints self = []
                      then self\<lparr>self_constraints := constraints gs\<rparr> else self)
                     (int (length (admitted_people st))))
                  (self_constraints
                     (if self_constraints self = []
                      then self\<lparr>self_constraints := constraints gs\<rparr> else self))))"
  using assms by (simp add: decide_def Let_def case_prod_beta)


lemma constraint_rejects_cong:
  assumes "self_relative_frequencies s1 = self_relative_frequencies s2"
  shows "constraint_rejects s1 p st sp t r tol k = constraint_rejects s2 p st sp t r tol k"
  using assms by (simp add: constraint_rejects_def calculate_expected_attribute_yield_def Let_def)

lemma decide_constraints_cong:
  assumes "self_relative_frequencies s1 = self_relative_frequencies s2"
  shows "fst (decide_constraints s1 p st sp t r tol cs) = fst (decide_constraints s2 p st sp t r tol cs)"
  by (induction cs)
     (simp_all add: constraint_rejects_cong[OF assms] case_prod_beta split: option.splits)

lemma tolerance_cong:
  assumes "initial_tolerance s1 = initial_tolerance s2" "final_tolerance s1 = final_tolerance s2"
    "strictness_start s1 = strictness_start s2"
  shows "calculate_current_tolerance s1 a = calculate_current_tolerance s2 a"
  using assms by (simp add: calculate_current_tolerance_def Let_def)

lemma decide_fst_cong:
  assumes "\<not> no_attributes (attributes p)"
    and "initial_tolerance s1 = initial_tolerance s2" "final_tolerance s1 = final_tolerance s2"
    and "strictness_start s1 = strictness_start s2"
    and "self_constraints s1 = self_constraints s2"
    and "self_relative_frequencies s1 = self_relative_frequencies s2"
  shows "fst (decide s1 p gs st sp g) = fst (decide s2 p gs st sp g)"
proof -
  let ?l1 = "if self_constraints s1 = [] then s1\<lparr>self_constraints := constraints gs\<rparr> else s1"
  let ?l2 = "if self_constraints s2 = [] then s2\<lparr>self_constraints := constraints gs\<rparr> else s2"
  have cs: "self_constraints ?l1 = self_constraints ?l2" using assms(5) by simp
  have fr: "self_relative_frequencies ?l1 = self_relative_frequencies ?l2" using assms(5,6) by simp
  have tl: "calculate_current_tolerance ?l1 a = calculate_current_tolerance ?l2 a" for a
    using assms(2-5) by (intro tolerance_cong) simp_all
  have "fst (decide_constraints ?l1 p st sp t r (calculate_current_tolerance ?l1 a) (self_constraints ?l1))
      = fst (decide_constraints ?l2 p st sp t r (calculate_current_tolerance ?l2 a) (self_constraints ?l2))"
    for t r a
    unfolding tl cs by (rule decide_constraints_cong[OF fr])
  then show ?thesis
    unfolding decide_fst_per_quota[OF assms(1)] using assms(5) by simp
qed

subsection \<open>The tracked counts\<close>

lemma fold_increment:
  fixes m :: "string \<rightharpoonup> int"
  assumes "distinct (map fst xs)"
  shows "fold (\<lambda>(attr, v) m. case m attr of
                  Some n \<Rightarrow> (if v then m(attr \<mapsto> n + 1) else m)
                | None \<Rightarrow> m) xs m a
         = (case m a of None \<Rightarrow> None
            | Some n \<Rightarrow> Some (n + (if (a, True) \<in> set xs then 1 else 0)))"
  using assms
proof (induction xs arbitrary: m)
  case Nil
  then show ?case by (simp split: option.splits)
next
  case (Cons kv xs)
  obtain k v where kv: "kv = (k, v)" by (cases kv)
  from Cons.prems kv have d: "distinct (map fst xs)" and nk: "k \<notin> fst ` set xs" by auto
  then have nk': "(k, True) \<notin> set xs" by force
  show ?case
    using Cons.IH[OF d] nk' kv
    by (auto split: option.splits)
qed

lemma update_statistics_bounded:
  assumes "distinct (map fst (attributes p))" "counts_bounded st"
  shows "counts_bounded (update_statistics p d st)"
proof (cases d)
  case False
  with assms(2) show ?thesis by (simp add: counts_bounded_def update_statistics_def)
next
  case True
  show ?thesis
    unfolding counts_bounded_def
  proof (intro allI impI)
    fix attr n
    assume a: "attribute_counts (update_statistics p d st) attr = Some n"
    with True obtain k where k: "attribute_counts st attr = Some k"
      and n: "n = k + (if (attr, True) \<in> set (attributes p) then 1 else 0)"
      by (auto simp add: update_statistics_def fold_increment[OF assms(1)] split: option.splits)
    from assms(2) k have "k \<le> int (length (admitted_people st))"
      unfolding counts_bounded_def by blast
    with n True show "n \<le> int (length (admitted_people (update_statistics p d st)))"
      by (simp add: update_statistics_def)
  qed
qed

lemma fold_zero:
  fixes m :: "string \<rightharpoonup> int"
  assumes "\<And>a n. m a = Some n \<Longrightarrow> n = 0"
    and "fold (\<lambda>c m. m(attribute c \<mapsto> 0)) cs m a = Some n"
  shows "n = 0"
  using assms
proof (induction cs arbitrary: m)
  case Nil
  then show ?case by simp
next
  case (Cons c cs)
  have "\<And>b k. (m(attribute c \<mapsto> 0)) b = Some k \<Longrightarrow> k = 0"
    using Cons.prems(1) by (auto split: if_splits)
  moreover have "fold (\<lambda>c m. m(attribute c \<mapsto> 0)) cs (m(attribute c \<mapsto> 0)) a = Some n"
    using Cons.prems(2) by (simp only: fold_simps)
  ultimately show ?case by (rule Cons.IH)
qed

lemma decide_and_next_ok:
  assumes "service_dicts_ok api"
  shows "person_dict_ok (fst (decide_and_next api srv gid idx accept))"
proof -
  from assms have "case nextPerson (fst (get_decide_and_next api srv gid idx accept)) of
          None \<Rightarrow> True | Some (i, attrs) \<Rightarrow> distinct (map fst attrs)"
    unfolding service_dicts_ok_def by blast
  then show ?thesis
    by (auto simp add: person_dict_ok_def decide_and_next_def case_prod_beta split: option.splits)
qed

lemma start_game_inv:
  assumes "service_dicts_ok api" "start_game api scenario r0 w0 = Inr (r1, w1)"
  shows "runner_inv r1"
proof -
  from assms(2) obtain info srv1 where ng: "new_game api (server w0) scenario = Inr (info, srv1)"
    by (auto simp add: start_game_def Let_def split: sum.splits)
  have z: "n = 0"
    if "fold (\<lambda>c m. m(attribute c \<mapsto> (0::int))) (constraints info) Map.empty a = Some n" for a n
    using _ that by (rule fold_zero) simp
  from assms(2) ng have
    r1: "current_stats r1 = (current_stats (reset r0))
           \<lparr>attribute_counts := fold (\<lambda>c m. m(attribute c \<mapsto> 0)) (constraints info)
                (attribute_counts (current_stats (reset r0)))\<rparr>"
    and g1: "game_state r1 = Some (fst (decide_and_next api srv1 (game_id info) 0 None))"
    by (auto simp add: start_game_def Let_def case_prod_beta)
  have "counts_bounded (current_stats r1)"
    unfolding r1 counts_bounded_def by (auto simp add: reset_def dest: z)
  moreover have "person_dict_ok (fst (decide_and_next api srv1 (game_id info) 0 None))"
    by (rule decide_and_next_ok[OF assms(1)])
  ultimately show ?thesis by (simp add: runner_inv_def g1)
qed


lemma step_cycle_inv:
  assumes "service_dicts_ok api" "runner_inv r" "game_state r = Some gs"
    "next_person gs = Some person" "step_cycle api sp person gs r w = (rcd, r', w', gs')"
  shows "runner_inv r' \<and> game_state r' = Some gs'"
proof -
  from assms(2,3,4) have d: "distinct (map fst (attributes person))"
    by (simp add: runner_inv_def person_dict_ok_def)
  from assms(2) have cb: "counts_bounded (current_stats r)" by (simp add: runner_inv_def)
  let ?acc = "fst (decide (strategy r) person gs (current_stats r) sp (rng_state w))"
  let ?nxt = "decide_and_next api (server w) (game_id gs) (person_index person) (Some ?acc)"
  from assms(5) have cs: "current_stats r' =
      (update_statistics person ?acc (current_stats r))
        \<lparr>steps_taken := steps_taken (update_statistics person ?acc (current_stats r)) + 1\<rparr>"
    and g: "game_state r' = Some (fst ?nxt)" and g': "gs' = fst ?nxt"
    by (auto simp add: step_cycle_def Let_def case_prod_beta)
  have "counts_bounded (current_stats r')"
    using update_statistics_bounded[OF d cb, of ?acc] unfolding cs counts_bounded_def by simp
  moreover have "person_dict_ok (fst ?nxt)" by (rule decide_and_next_ok[OF assms(1)])
  ultimately show ?thesis using g g' by (simp add: runner_inv_def)
qed

lemma step_loop_inv:
  assumes "service_dicts_ok api"
  shows "runner_inv r \<Longrightarrow> step_loop api sp n recs r w = Inr (recs', r', w') \<Longrightarrow> runner_inv r'"
proof (induction n arbitrary: recs r w)
  case 0
  then show ?case by simp
next
  case (Suc n)
  from Suc.prems(2) obtain gs where gs: "game_state r = Some gs"
    by (auto split: option.splits)
  show ?case
  proof (cases "next_person gs")
    case None
    with Suc.prems gs show ?thesis by (auto simp add: runner_inv_def)
  next
    case (Some person)
    show ?thesis
    proof (cases "status gs = ''running''")
      case False
      with Suc.prems gs Some show ?thesis by (auto simp add: runner_inv_def)
    next
      case True
      obtain rcd r1 w1 gs1 where cyc: "step_cycle api sp person gs r w = (rcd, r1, w1, gs1)"
        by (cases "step_cycle api sp person gs r w") auto
      from step_cycle_inv[OF assms Suc.prems(1) gs Some cyc]
      have inv1: "runner_inv r1" by simp
      show ?thesis
      proof (cases "status gs1 = ''running''")
        case False
        with Suc.prems(2) gs Some True cyc have "r' = r1\<lparr>game_completed := True\<rparr>" by simp
        with inv1 show ?thesis by (simp add: runner_inv_def)
      next
        case run: True
        with Suc.prems(2) gs Some True cyc
        have "step_loop api sp n (recs @ [rcd]) r1 w1 = Inr (recs', r', w')" by simp
        with inv1 show ?thesis by (rule Suc.IH)
      qed
    qed
  qed
qed

lemma toy_service_dicts_ok: "service_dicts_ok toy_service"
  by (simp add: service_dicts_ok_def toy_service_def Let_def)

subsection \<open>Runs that agree on the draws they consume\<close>

lemma no_attributes_person_same_draw:
  assumes "g1 0 = g2 0"
  shows "fst (decide_no_attributes_person s a st sp g1) = fst (decide_no_attributes_person s a st sp g2)"
    and "snd (snd (decide_no_attributes_person s a st sp g1))
           = snd (snd (decide_no_attributes_person s a st sp g2))"
  using assms
  by (simp_all add: decide_no_attributes_person_def Let_def random_random_def case_prod_beta)

lemma no_attributes_person_rng:
  "fst (snd (decide_no_attributes_person s a st sp g1)) = g1 \<and>
   fst (snd (decide_no_attributes_person s a st sp g2)) = g2 \<or>
   fst (snd (decide_no_attributes_person s a st sp g1)) = (\<lambda>n. g1 (Suc n)) \<and>
   fst (snd (decide_no_attributes_person s a st sp g2)) = (\<lambda>n. g2 (Suc n))"
  by (simp add: decide_no_attributes_person_def Let_def random_random_def case_prod_beta)

lemma decide_same_draw:
  assumes "g1 0 = g2 0"
  shows "fst (decide s p gs st sp g1) = fst (decide s p gs st sp g2)"
    and "fst (snd (decide s p gs st sp g1)) = fst (snd (decide s p gs st sp g2))"
    and "snd (snd (snd (decide s p gs st sp g1))) = snd (snd (snd (decide s p gs st sp g2)))"
  using no_attributes_person_same_draw[where ?g1.0 = g1 and ?g2.0 = g2, OF assms]
  by (simp_all add: decide_def Let_def case_prod_beta)

lemma decide_rng:
  "fst (snd (snd (decide s p gs st sp g1))) = g1 \<and>
   fst (snd (snd (decide s p gs st sp g2))) = g2 \<or>
   fst (snd (snd (decide s p gs st sp g1))) = (\<lambda>n. g1 (Suc n)) \<and>
   fst (snd (snd (decide s p gs st sp g2))) = (\<lambda>n. g2 (Suc n))"
  using no_attributes_person_rng[of s "admitted_count gs" st sp g1 g2]
  by (simp add: decide_def Let_def case_prod_beta)

lemma decide_rng_agree:
  assumes "\<forall>i < Suc n. g1 i = g2 i"
  shows "\<forall>i < n. fst (snd (snd (decide s p gs st sp g1))) i
                = fst (snd (snd (decide s p gs st sp g2))) i"
  using decide_rng[of s p gs st sp g1 g2] assms by auto


lemma step_cycle_same_draws:
  assumes "server w1 = server w2" "console w1 = console w2"
    and "\<forall>i < Suc n. rng_state w1 i = rng_state w2 i"
  shows "fst (step_cycle api sp p gs r w1) = fst (step_cycle api sp p gs r w2)"
    and "fst (snd (step_cycle api sp p gs r w1)) = fst (snd (step_cycle api sp p gs r w2))"
    and "snd (snd (snd (step_cycle api sp p gs r w1))) = snd (snd (snd (step_cycle api sp p gs r w2)))"
    and "server (fst (snd (snd (step_cycle api sp p gs r w1))))
           = server (fst (snd (snd (step_cycle api sp p gs r w2))))"
    and "console (fst (snd (snd (step_cycle api sp p gs r w1))))
           = console (fst (snd (snd (step_cycle api sp p gs r w2))))"
    and "\<forall>i < n. rng_state (fst (snd (snd (step_cycle api sp p gs r w1)))) i
                   = rng_state (fst (snd (snd (step_cycle api sp p gs r w2)))) i"
proof -
  from assms(3) have z: "rng_state w1 0 = rng_state w2 0" by simp
  note d = decide_same_draw[where ?g1.0 = "rng_state w1" and ?g2.0 = "rng_state w2", OF z,
      of "strategy r" p gs "current_stats r" sp]
  note a = decide_rng_agree[OF assms(3), of "strategy r" p gs "current_stats r" sp]
  show "fst (step_cycle api sp p gs r w1) = fst (step_cycle api sp p gs r w2)"
    using d by (simp add: step_cycle_def Let_def case_prod_beta)
  show "fst (snd (step_cycle api sp p gs r w1)) = fst (snd (step_cycle api sp p gs r w2))"
    using d assms(1) by (simp add: step_cycle_def Let_def case_prod_beta)
  show "snd (snd (snd (step_cycle api sp p gs r w1))) = snd (snd (snd (step_cycle api sp p gs r w2)))"
    using d assms(1) by (simp add: step_cycle_def Let_def case_prod_beta)
  show "server (fst (snd (snd (step_cycle api sp p gs r w1))))
           = server (fst (snd (snd (step_cycle api sp p gs r w2))))"
    using d assms(1) by (simp add: step_cycle_def Let_def case_prod_beta)
  show "console (fst (snd (snd (step_cycle api sp p gs r w1))))
           = console (fst (snd (snd (step_cycle api sp p gs r w2))))"
    using d assms(2) by (simp add: step_cycle_def Let_def case_prod_beta)
  show "\<forall>i < n. rng_state (fst (snd (snd (step_cycle api sp p gs r w1)))) i
                   = rng_state (fst (snd (snd (step_cycle api sp p gs r w2)))) i"
    using a by (simp add: step_cycle_def Let_def case_prod_beta)
qed

lemma step_loop_same_draws:
  "server w1 = server w2 \<Longrightarrow> console w1 = console w2 \<Longrightarrow>
   \<forall>i < n. rng_state w1 i = rng_state w2 i \<Longrightarrow>
   observed (step_loop api sp n recs r w1) = observed (step_loop api sp n recs r w2)"
proof (induction n arbitrary: recs r w1 w2)
  case 0
  then show ?case by (simp add: observed_def)
next
  case (Suc n)
  show ?case
  proof (cases "game_state r")
    case None
    then show ?thesis by (simp add: observed_def)
  next
    case gs: (Some gs)
    show ?thesis
    proof (cases "next_person gs")
      case None
      with gs Suc.prems show ?thesis by (simp add: observed_def)
    next
      case (Some p)
      show ?thesis
      proof (cases "status gs = ''running''")
        case False
        with gs Some Suc.prems show ?thesis by (simp add: observed_def)
      next
        case True
        let ?c1 = "step_cycle api sp p gs r w1" and ?c2 = "step_cycle api sp p gs r w2"
        note c = step_cycle_same_draws[OF Suc.prems, of api sp p gs r]
        have ih: "observed (step_loop api sp n (recs @ [fst ?c1]) (fst (snd ?c1)) (fst (snd (snd ?c1))))
                = observed (step_loop api sp n (recs @ [fst ?c2]) (fst (snd ?c2)) (fst (snd (snd ?c2))))"
          unfolding c(1) c(2) by (rule Suc.IH[OF c(4) c(5) c(6)])
        have e: "step_loop api sp (Suc n) recs r w =
            (if status (snd (snd (snd (step_cycle api sp p gs r w)))) \<noteq> ''running''
             then Inr (recs @ [fst (step_cycle api sp p gs r w)],
                       (fst (snd (step_cycle api sp p gs r w)))\<lparr>game_completed := True\<rparr>,
                       fst (snd (snd (step_cycle api sp p gs r w))))
             else step_loop api sp n (recs @ [fst (step_cycle api sp p gs r w)])
                    (fst (snd (step_cycle api sp p gs r w)))
                    (fst (snd (snd (step_cycle api sp p gs r w)))))" for w
          using gs Some True by (simp add: case_prod_beta Let_def)
        show ?thesis
          unfolding e[of w1] e[of w2] c(3)
          using ih c(1,2,4,5) by (simp add: observed_def)
      qed
    qed
  qed
qed

subsection \<open>Session creation\<close>

lemma start_game_fails_iff:
  "isl (start_game api scenario r w) = (scenario \<noteq> 1 \<and> scenario \<noteq> 2 \<and> scenario \<noteq> 3)"
  by (auto simp add: start_game_def new_game_def Let_def case_prod_beta)

lemmas fixture_defs =
  draws_half_def strategy_one_quota_def strategy_two_quotas_def strategy_frequency_one_def
  strategy_frequency_zero_def strategy_rising_def state_running_def stats_start_def
  stats_one_admitted_def person_empty_def person_only_Y_def
  Scenario1Strategy_default_def Scenario1Strategy_init_def

lemmas policy_defs =
  decide_def decide_no_attributes_person_def no_attributes_def dict_get_def dict_contains_def
  calculate_no_attributes_target_with_statistics_def base_rate_def adjusted_rate_def
  any_constraint_struggling_def random_random_def calculate_current_tolerance_def
  constraint_rejects_def correlation_log_def correlation_bonus_def milestone_points_def
  calculate_expected_attribute_yield_def Let_def

section \<open>Results\<close>

text \<open>
  C1 (as amended). With no candidate admitted so far and fewer than 1000 admissions
  reported, \<open>decide\<close> admits every candidate that has at least one attribute true, whatever
  the random draws: this is the bootstrap rule. A candidate all of whose attributes are
  false reaches the no-attribute sub-policy first and is decided by its draw; whenever the
  draw is at least 0.3 it is rejected.
\<close>

theorem bootstrap_admits_attributed_candidate:
  assumes "admitted_count gs < 1000" "admitted_people st = []"
  shows "(\<not> no_attributes (attributes p) \<longrightarrow> fst (decide self p gs st sp g) = True) \<and>
         (no_attributes (attributes p) \<longrightarrow> 3 / 10 \<le> g 0 \<longrightarrow> fst (decide self p gs st sp g) = False)"
  using assms by (simp add: decide_bootstrap decide_no_attr no_attr_first_rejects)

theorem bootstrap_admits_witness:
  "admitted_count (state_running 0) < 1000 \<and> admitted_people stats_start = [] \<and>
   \<not> no_attributes (attributes person_only_Y) \<and>
   fst (decide strategy_one_quota person_only_Y (state_running 0) stats_start True draws_half) = True"
  using bootstrap_admits_attributed_candidate
          [where gs = "state_running 0" and st = stats_start and p = person_only_Y
             and self = strategy_one_quota and sp = True and g = draws_half]
  by (simp add: fixture_defs no_attributes_def dict_get_def)

text \<open>
  C1 as stated fails: the first candidate of a session, with nobody admitted and all
  attributes false, is rejected when the draw is 0.5.
\<close>

theorem first_empty_candidate_rejected:
  "admitted_people stats_start = [] \<and> no_attributes (attributes person_empty) \<and>
   fst (decide strategy_one_quota person_empty (state_running 0) stats_start True draws_half) = False"
  by (simp add: fixture_defs policy_defs)

text \<open>
  C2 (as amended). For a candidate whose attribute dictionary has no true value at all, and
  fewer than 1000 admissions reported, \<open>decide\<close> returns what the no-attribute sub-policy
  returns and leaves the strategy unchanged. A candidate with any true attribute, quota
  attribute or not, is not delegated: no random draw is consumed.
\<close>

theorem empty_candidate_delegates:
  assumes "distinct (map fst (attributes p))" "admitted_count gs < 1000"
  shows "((\<forall>(k, v) \<in> set (attributes p). \<not> v) \<longrightarrow>
            decide self p gs st sp g =
              (fst (decide_no_attributes_person self (admitted_count gs) st sp g), self,
               snd (decide_no_attributes_person self (admitted_count gs) st sp g))) \<and>
         ((\<exists>k. (k, True) \<in> set (attributes p)) \<longrightarrow>
            fst (snd (snd (decide self p gs st sp g))) = g)"
proof (intro conjI impI)
  assume "\<forall>(k, v) \<in> set (attributes p). \<not> v"
  then have "no_attributes (attributes p)" by (simp add: no_attributes_iff[OF assms(1)])
  then show "decide self p gs st sp g =
              (fst (decide_no_attributes_person self (admitted_count gs) st sp g), self,
               snd (decide_no_attributes_person self (admitted_count gs) st sp g))"
    using assms(2) by (rule decide_no_attr[rotated])
next
  assume "\<exists>k. (k, True) \<in> set (attributes p)"
  then have "\<not> no_attributes (attributes p)" by (auto simp add: no_attributes_iff[OF assms(1)])
  then show "fst (snd (snd (decide self p gs st sp g))) = g" by (rule decide_rng_per_quota)
qed

theorem empty_candidate_delegates_witness:
  "distinct (map fst (attributes person_empty)) \<and> admitted_count (state_running 1) < 1000 \<and>
   map snd (attributes person_empty) = [False, False] \<and>
   decide strategy_one_quota person_empty (state_running 1) stats_one_admitted True draws_half =
     (fst (decide_no_attributes_person strategy_one_quota (admitted_count (state_running 1))
             stats_one_admitted True draws_half),
      strategy_one_quota,
      snd (decide_no_attributes_person strategy_one_quota (admitted_count (state_running 1))
             stats_one_admitted True draws_half))"
  using empty_candidate_delegates
          [where gs = "state_running 1" and st = stats_one_admitted and p = person_empty
             and self = strategy_one_quota and sp = True and g = draws_half]
  by (simp add: person_empty_def state_running_def)

text \<open>
  C2 as stated fails: the only quota is on X, the candidate has X false and the non-quota
  attribute Y true; \<open>decide\<close> admits on the per-quota path, while the no-attribute
  sub-policy rejects in the same state with the same draw.
\<close>

theorem non_quota_attribute_not_delegated:
  "map attribute (self_constraints strategy_one_quota) = [''X''] \<and>
   \<not> dict_get (attributes person_only_Y) ''X'' False \<and>
   fst (decide strategy_one_quota person_only_Y (state_running 1) stats_one_admitted True draws_half)
     = True \<and>
   fst (decide_no_attributes_person strategy_one_quota 1 stats_one_admitted True draws_half)
     = False"
  by (simp add: fixture_defs policy_defs)

text \<open>
  C3 (as amended). Whenever \<open>0 \<le> final_tolerance \<le> initial_tolerance\<close>, with any
  \<open>strictness_start\<close>, the tolerance is monotone non-increasing in the admitted count, that
  is in the progress \<open>admitted_count / 1000\<close>. For every configuration it is exactly 0 once
  the progress is at least 0.95.
\<close>

theorem tolerance_monotone_and_zero:
  "(0 \<le> final_tolerance self \<and> final_tolerance self \<le> initial_tolerance self \<and> a \<le> b
      \<longrightarrow> calculate_current_tolerance self b \<le> calculate_current_tolerance self a) \<and>
   (95 / 100 \<le> real_of_int a / 1000 \<longrightarrow> calculate_current_tolerance self a = 0)"
  using tolerance_antimono[of self a b] tolerance_at_end[of a self] by blast

theorem tolerance_monotone_witness:
  "0 \<le> final_tolerance Scenario1Strategy_default \<and>
   final_tolerance Scenario1Strategy_default \<le> initial_tolerance Scenario1Strategy_default \<and>
   (100 :: int) \<le> 500 \<and>
   calculate_current_tolerance Scenario1Strategy_default 500
     \<le> calculate_current_tolerance Scenario1Strategy_default 100 \<and>
   95 / 100 \<le> real_of_int 950 / 1000 \<and>
   calculate_current_tolerance Scenario1Strategy_default 950 = 0"
  using tolerance_monotone_and_zero[of Scenario1Strategy_default 100 500]
        tolerance_monotone_and_zero[of Scenario1Strategy_default 950 950]
  by (simp add: Scenario1Strategy_default_def Scenario1Strategy_init_def)

text \<open>
  C3 as stated fails: with \<open>initial_tolerance = 0.02\<close>, \<open>final_tolerance = 0.20\<close> and
  \<open>strictness_start = 0.1\<close> the tolerance is larger at 500 admitted than at 100.
\<close>

theorem tolerance_rises_when_final_exceeds_initial:
  "calculate_current_tolerance strategy_rising 100 < calculate_current_tolerance strategy_rising 500"
  by (simp add: strategy_rising_def Scenario1Strategy_init_def calculate_current_tolerance_def Let_def)

text \<open>
  C7. With exactly two quotas whose attributes both have relative frequency 0.5 and whose
  correlation, looked up as the code does, is 0 (or absent),
  \<open>_calculate_no_attributes_target_with_statistics\<close> returns exactly 0.25. Every
  intermediate value (0.25, 0.75) is a dyadic fraction.
\<close>

theorem neither_probability_quarter:
  assumes "self_constraints self = [c1, c2]"
      and "map_of (self_relative_frequencies self) (attribute c1) = Some (1 / 2)"
      and "map_of (self_relative_frequencies self) (attribute c2) = Some (1 / 2)"
      and "dict_get (dict_get (self_correlations self) (attribute c1) []) (attribute c2) 0 = 0"
  shows "calculate_no_attributes_target_with_statistics self = 1 / 4"
proof -
  let ?f1 = "dict_get (self_relative_frequencies self) (attribute c1) (1 / 2)"
  let ?f2 = "dict_get (self_relative_frequencies self) (attribute c2) (1 / 2)"
  let ?c = "dict_get (dict_get (self_correlations self) (attribute c1) []) (attribute c2) 0"
  have nonempty: "self_relative_frequencies self \<noteq> []" using assms(2) by auto
  have f1: "?f1 = 1 / 2" and f2: "?f2 = 1 / 2" using assms(2,3) by (simp_all add: dict_get_def)
  have "calculate_no_attributes_target_with_statistics self =
        max (5 / 100) (min (8 / 10) (1 - (?f1 + ?f2 - min (?f1 * ?f2 * (1 + max 0 ?c)) (min ?f1 ?f2))))"
    using assms(1) nonempty by (simp add: calculate_no_attributes_target_with_statistics_def Let_def)
  also have "\<dots> = 1 / 4" unfolding f1 f2 assms(4) by simp
  finally show ?thesis .
qed

theorem neither_probability_quarter_witness:
  "self_constraints strategy_two_quotas
     = [\<lparr> attribute = ''A'', min_count = 300 \<rparr>, \<lparr> attribute = ''B'', min_count = 300 \<rparr>] \<and>
   map_of (self_relative_frequencies strategy_two_quotas) ''A'' = Some (1 / 2) \<and>
   map_of (self_relative_frequencies strategy_two_quotas) ''B'' = Some (1 / 2) \<and>
   dict_get (dict_get (self_correlations strategy_two_quotas) ''A'' []) ''B'' 0 = 0 \<and>
   calculate_no_attributes_target_with_statistics strategy_two_quotas = 1 / 4"
  using neither_probability_quarter
          [where self = strategy_two_quotas and ?c1.0 = "\<lparr> attribute = ''A'', min_count = 300 \<rparr>"
             and ?c2.0 = "\<lparr> attribute = ''B'', min_count = 300 \<rparr>"]
  by (simp add: strategy_two_quotas_def Scenario1Strategy_default_def Scenario1Strategy_init_def
        dict_get_def)

text \<open>
  C10. With frequencies available: for two or more quotas the target lies in [0.05, 0.8];
  for exactly one quota it is \<open>1 - frequency\<close> (0.5 when the attribute has no frequency),
  unclamped, so that it is 0 at frequency 1 and 1 at frequency 0.
\<close>

theorem no_attributes_target_range:
  assumes "self_relative_frequencies self \<noteq> []"
  shows "(2 \<le> length (self_constraints self) \<longrightarrow>
            5 / 100 \<le> calculate_no_attributes_target_with_statistics self \<and>
            calculate_no_attributes_target_with_statistics self \<le> 8 / 10) \<and>
         (self_constraints self = [c] \<longrightarrow>
            calculate_no_attributes_target_with_statistics self
              = 1 - dict_get (self_relative_frequencies self) (attribute c) (1 / 2)) \<and>
         calculate_no_attributes_target_with_statistics strategy_frequency_one = 0 \<and>
         calculate_no_attributes_target_with_statistics strategy_frequency_zero = 1"
proof (intro conjI impI)
  assume two: "2 \<le> length (self_constraints self)"
  from target_is_clamped[OF assms two] obtain x where
    eq: "calculate_no_attributes_target_with_statistics self = max (5 / 100) (min (8 / 10) x)" ..
  show "5 / 100 \<le> calculate_no_attributes_target_with_statistics self"
    unfolding eq by (rule clamp_bounds[of x, THEN conjunct1])
  show "calculate_no_attributes_target_with_statistics self \<le> 8 / 10"
    unfolding eq by (rule clamp_bounds[of x, THEN conjunct2])
next
  assume "self_constraints self = [c]"
  with assms show "calculate_no_attributes_target_with_statistics self
      = 1 - dict_get (self_relative_frequencies self) (attribute c) (1 / 2)"
    by (rule target_single_quota)
next
  show "calculate_no_attributes_target_with_statistics strategy_frequency_one = 0"
    by (simp add: strategy_frequency_one_def Scenario1Strategy_default_def
          Scenario1Strategy_init_def calculate_no_attributes_target_with_statistics_def
          dict_get_def Let_def)
  show "calculate_no_attributes_target_with_statistics strategy_frequency_zero = 1"
    by (simp add: strategy_frequency_zero_def Scenario1Strategy_default_def
          Scenario1Strategy_init_def calculate_no_attributes_target_with_statistics_def
          dict_get_def Let_def)
qed

theorem no_attributes_target_range_witness:
  "self_relative_frequencies strategy_two_quotas \<noteq> [] \<and>
   2 \<le> length (self_constraints strategy_two_quotas) \<and>
   5 / 100 \<le> calculate_no_attributes_target_with_statistics strategy_two_quotas \<and>
   calculate_no_attributes_target_with_statistics strategy_two_quotas \<le> 8 / 10"
  using no_attributes_target_range[where self = strategy_two_quotas]
  by (simp add: strategy_two_quotas_def Scenario1Strategy_default_def Scenario1Strategy_init_def)




text \<open>
  C9. For a candidate with at least one attribute true, the decision of \<open>decide\<close> is the
  same under any two correlation mappings: on that path the correlations reach only the
  output. The witness shows a state where the output does differ and the decision does not.
\<close>

theorem correlations_never_change_decision:
  assumes "\<not> no_attributes (attributes p)"
  shows "fst (decide (self\<lparr>self_correlations := c1\<rparr>) p gs st sp g)
       = fst (decide (self\<lparr>self_correlations := c2\<rparr>) p gs st sp g)"
  using assms by (intro decide_fst_cong) simp_all

theorem correlations_never_change_decision_witness:
  "\<not> no_attributes (attributes person_X_and_Y) \<and>
   fst (decide (strategy_one_quota\<lparr>self_correlations := correlations_X_Y\<rparr>) person_X_and_Y
          (state_running 2) stats_two_admitted True draws_half)
     = fst (decide (strategy_one_quota\<lparr>self_correlations := []\<rparr>) person_X_and_Y
          (state_running 2) stats_two_admitted True draws_half) \<and>
   snd (snd (snd (decide (strategy_one_quota\<lparr>self_correlations := correlations_X_Y\<rparr>)
          person_X_and_Y (state_running 2) stats_two_admitted True draws_half)))
     = [CorrelatedAttributes ''X'' (1 / 2)] \<and>
   snd (snd (snd (decide (strategy_one_quota\<lparr>self_correlations := []\<rparr>)
          person_X_and_Y (state_running 2) stats_two_admitted True draws_half))) = []"
  using correlations_never_change_decision
          [where p = person_X_and_Y and self = strategy_one_quota and ?c1.0 = correlations_X_Y
             and ?c2.0 = "[]" and gs = "state_running 2" and st = stats_two_admitted
             and sp = True and g = draws_half]
  by (simp add: fixture_defs policy_defs person_X_and_Y_def stats_two_admitted_def
        correlations_X_Y_def)

text \<open>
  C5 (as amended). Creating the strategy never raises and checks nothing: whatever the
  three tolerance parameters are, they are stored as given. Creating the session with
  \<open>start_game\<close> raises exactly when the scenario is not 1, 2 or 3, whatever the tolerance
  parameters; otherwise the session starts and processes candidates.
\<close>

theorem session_creation_ignores_tolerances:
  "initial_tolerance (Scenario1Strategy_init a b c) = a \<and>
   final_tolerance (Scenario1Strategy_init a b c) = b \<and>
   strictness_start (Scenario1Strategy_init a b c) = c \<and>
   isl (start_game api scenario (GameRunner_init (Scenario1Strategy_init a b c)) w)
     = (scenario \<noteq> 1 \<and> scenario \<noteq> 2 \<and> scenario \<noteq> 3)"
  by (simp add: Scenario1Strategy_init_def start_game_fails_iff)

theorem session_creation_ignores_tolerances_witness:
  "strictness_start (Scenario1Strategy_init 2 (2 / 100) 7) = 7 \<and>
   isl (start_game toy_service 4 (GameRunner_init (Scenario1Strategy_init 2 (2 / 100) 7)) toy_world)"
  using session_creation_ignores_tolerances
          [where a = 2 and b = "2 / 100" and c = 7 and api = toy_service and scenario = 4
             and w = toy_world]
  by simp

text \<open>
  C5 as stated fails: with \<open>initial_tolerance = 2\<close>, outside [0, 1], the session is
  created without error, is started, and its first candidate is decided.
\<close>

theorem out_of_range_tolerance_accepted:
  "\<not> (0 \<le> initial_tolerance strategy_bad_tolerance \<and> initial_tolerance strategy_bad_tolerance \<le> 1) \<and>
   \<not> isl (start_game toy_service 1 (GameRunner_init strategy_bad_tolerance) toy_world) \<and>
   game_started (fst (toy_started strategy_bad_tolerance)) \<and>
   initial_tolerance (strategy (fst (toy_started strategy_bad_tolerance))) = 2 \<and>
   map decision (fst (toy_after strategy_bad_tolerance 1)) = [True]"
  by code_simp

text \<open>
  C6. After \<open>start_game\<close> and any number of decision cycles of \<open>step\<close>, every tracked
  attribute count is at most the number of admitted candidates, provided the service
  delivers the attributes of a candidate as a dictionary (no key twice).
\<close>

theorem counts_never_exceed_admitted:
  assumes "service_dicts_ok api"
    and "start_game api scenario r0 w0 = Inr (r1, w1)"
    and "step api num_steps sp r1 w1 = Inr (recs, r2, w2)"
    and "attribute_counts (current_stats r2) attr = Some n"
  shows "n \<le> int (length (admitted_people (current_stats r2)))"
proof -
  have i1: "runner_inv r1" by (rule start_game_inv[OF assms(1,2)])
  have "runner_inv r2"
  proof (cases "\<not> game_started r1 \<or> game_completed r1")
    case True
    with assms(3) have "r2 = r1" by (simp add: step_def)
    with i1 show ?thesis by simp
  next
    case False
    with assms(3) have "step_loop api sp (nat num_steps) [] r1 w1 = Inr (recs, r2, w2)"
      by (simp add: step_def)
    with i1 show ?thesis by (rule step_loop_inv[OF assms(1)])
  qed
  then have "counts_bounded (current_stats r2)" by (simp add: runner_inv_def)
  with assms(4) show ?thesis unfolding counts_bounded_def by blast
qed

theorem counts_never_exceed_admitted_witness:
  "attribute_counts (current_stats (fst (snd (toy_after Scenario1Strategy_default 3)))) ''X'' = Some 1 \<and>
   length (admitted_people (current_stats (fst (snd (toy_after Scenario1Strategy_default 3))))) = 2 \<and>
   (1 :: int) \<le> int (length (admitted_people
                      (current_stats (fst (snd (toy_after Scenario1Strategy_default 3))))))"
proof -
  let ?s = "toy_started Scenario1Strategy_default"
  let ?a = "toy_after Scenario1Strategy_default 3"
  have "\<not> isl (start_game toy_service 1 (GameRunner_init Scenario1Strategy_default) toy_world)"
    by code_simp
  then have h2: "start_game toy_service 1 (GameRunner_init Scenario1Strategy_default) toy_world
                   = Inr (fst ?s, snd ?s)"
    by (simp add: toy_started_def)
  have "\<not> isl (step toy_service 3 True (fst ?s) (snd ?s))" by code_simp
  then have h3: "step toy_service 3 True (fst ?s) (snd ?s) = Inr (fst ?a, fst (snd ?a), snd (snd ?a))"
    by (simp add: toy_after_def)
  have h4: "attribute_counts (current_stats (fst (snd ?a))) ''X'' = Some 1" by code_simp
  have h5: "length (admitted_people (current_stats (fst (snd ?a)))) = 2" by code_simp
  from counts_never_exceed_admitted[OF toy_service_dicts_ok h2 h3 h4] h4 h5
  show ?thesis by simp
qed

text \<open>
  C8. Two runs of \<open>step\<close> from the same runner, the same service state and the same
  console, over generators that agree on the first \<open>num_steps\<close> draws (each candidate
  consumes at most one), are indistinguishable: the same error, or the same records with
  the same decisions, the same runner, the same service state and the same output.
\<close>

theorem replay_gives_identical_decisions:
  assumes "\<forall>i < nat num_steps. g1 i = g2 i"
  shows "observed (step api num_steps sp r (w\<lparr>rng_state := g1\<rparr>))
       = observed (step api num_steps sp r (w\<lparr>rng_state := g2\<rparr>))"
proof (cases "\<not> game_started r \<or> game_completed r")
  case True
  then show ?thesis by (simp add: step_def observed_def)
next
  case False
  have "observed (step_loop api sp (nat num_steps) [] r (w\<lparr>rng_state := g1\<rparr>))
      = observed (step_loop api sp (nat num_steps) [] r (w\<lparr>rng_state := g2\<rparr>))"
    using assms by (intro step_loop_same_draws) simp_all
  with False show ?thesis by (simp add: step_def)
qed

theorem replay_gives_identical_decisions_witness:
  "draws_half 3 \<noteq> draws_half_then_zero 3 \<and>
   observed (step toy_service 3 True (fst (toy_started Scenario1Strategy_default))
               ((snd (toy_started Scenario1Strategy_default))\<lparr>rng_state := draws_half\<rparr>))
     = observed (step toy_service 3 True (fst (toy_started Scenario1Strategy_default))
               ((snd (toy_started Scenario1Strategy_default))\<lparr>rng_state := draws_half_then_zero\<rparr>))"
  using replay_gives_identical_decisions
          [where num_steps = 3 and ?g1.0 = draws_half and ?g2.0 = draws_half_then_zero
             and api = toy_service and sp = True
             and r = "fst (toy_started Scenario1Strategy_default)"
             and w = "snd (toy_started Scenario1Strategy_default)"]
  by (simp add: draws_half_def draws_half_then_zero_def)

end
